theory Spec2Isabelle
  imports Main
begin

section \<open>Go values shared by all packages\<close>

text \<open>
  A Go \<open>error\<close> value. \<open>ThrottlingException\<close> is the SDK's
  \<open>*connecttypes.ThrottlingException\<close>, \<open>ExitError\<close> is \<open>*ssh.ExitError\<close> with its exit
  status, \<open>ErrorString\<close> is what \<open>errors.New\<close> and \<open>fmt.Errorf\<close> without \<open>%w\<close> build, and
  \<open>WrapError\<close> is \<open>fmt.Errorf\<close> with \<open>%w\<close>: the formatted message and the wrapped cause.
  Every constructor carries the text its \<open>Error()\<close> method prints.
\<close>

datatype go_error =
    ThrottlingException string
  | ExitError int string
  | ErrorString string
  | WrapError string go_error

fun Error :: "go_error \<Rightarrow> string" where
  "Error (ThrottlingException m) = m"
| "Error (ExitError st m) = m"
| "Error (ErrorString m) = m"
| "Error (WrapError m cause) = m"

text \<open>
  How a call ends: it returns a value, it ends the process (\<open>os.Exit\<close>, \<open>log.Fatal\<close>) with an
  exit status, it panics, or it never returns (\<open>Blocks\<close>: it waits in a call for ever).
\<close>

datatype 'a outcome = Returns 'a | Exits int | Panics string | Blocks

fun bind_outcome :: "'a outcome \<Rightarrow> ('a \<Rightarrow> 'b outcome) \<Rightarrow> 'b outcome" where
  "bind_outcome (Returns x) f = f x"
| "bind_outcome (Exits st) f = Exits st"
| "bind_outcome (Panics m) f = Panics m"
| "bind_outcome Blocks f = Blocks"

text \<open>\<open>aws.ToString\<close>: the string a \<open>*string\<close> points to, the empty string for \<open>nil\<close>.\<close>

fun aws_ToString :: "string option \<Rightarrow> string" where
  "aws_ToString None = []"
| "aws_ToString (Some s) = s"

text \<open>
  \<open>rand.Intn n\<close> panics for \<open>n \<le> 0\<close> and returns a number below \<open>n\<close> otherwise. The
  generator's state is outside the program, so the model takes the raw draw as an argument
  and reduces it into the range.
\<close>

definition rand_Intn :: "nat \<Rightarrow> nat \<Rightarrow> nat outcome" where
  "rand_Intn raw n = (if n = 0 then Panics ''invalid argument to Intn'' else Returns (raw mod n))"

section \<open>Package main: the instance resolver\<close>

record ec2_Filter =
  Name :: "string option"
  Values :: "string list"

record SpotInstanceRequest =
  sir_InstanceId :: "string option"

text \<open>
  \<open>ec2types.Instance\<close>, with the fields the program reads. \<open>Placement\<close> is a struct pointer
  that \<open>sendPublicKey\<close> follows without a check; the record keeps the field read through it.
\<close>

record Instance =
  InstanceId :: "string option"
  PrivateIpAddress :: "string option"
  PublicIpAddress :: "string option"
  Placement_AvailabilityZone :: "string option"

record Reservation =
  Instances :: "Instance list"

record DescribeInstancesInput =
  dii_Filters :: "ec2_Filter list"
  dii_InstanceIds :: "string list"

text \<open>The two operations of \<open>*ec2.Client\<close> the program calls, as the responses they give.\<close>

record ec2_Client =
  DescribeSpotInstanceRequests :: "ec2_Filter list \<Rightarrow> go_error + SpotInstanceRequest list"
  DescribeInstances :: "DescribeInstancesInput \<Rightarrow> go_error + Reservation list"

definition getSpotRequestByTag ::
  "ec2_Client \<Rightarrow> string \<Rightarrow> string \<Rightarrow> go_error + SpotInstanceRequest list" where
  "getSpotRequestByTag ec2Client tagName tagValue =
     DescribeSpotInstanceRequests ec2Client
       [\<lparr>Name = Some (''tag:'' @ tagName), Values = [tagValue]\<rparr>,
        \<lparr>Name = Some ''state'', Values = [''active'']\<rparr>,
        \<lparr>Name = Some ''status-code'', Values = [''fulfilled'']\<rparr>]"

definition getInstanceByTag ::
  "ec2_Client \<Rightarrow> string \<Rightarrow> string \<Rightarrow> go_error + Reservation list" where
  "getInstanceByTag ec2Client tagName tagValue =
     DescribeInstances ec2Client
       \<lparr>dii_Filters =
          [\<lparr>Name = Some (''tag:'' @ tagName), Values = [tagValue]\<rparr>,
           \<lparr>Name = Some ''instance-state-name'', Values = [''running'']\<rparr>],
        dii_InstanceIds = []\<rparr>"

text \<open>
  \<open>resolveBastionInstanceID\<close>. \<open>r1\<close> and \<open>r2\<close> are the raw draws behind the first and the
  second call of \<open>rand.Intn\<close>. The result is the pair the Go function returns.
\<close>

definition resolveBastionInstanceID ::
  "ec2_Client \<Rightarrow> nat \<Rightarrow> nat \<Rightarrow> string \<Rightarrow> string \<Rightarrow> (string \<times> go_error option) outcome" where
  "resolveBastionInstanceID ec2Client r1 r2 tagName tagValue =
     (case getSpotRequestByTag ec2Client tagName tagValue of
        Inl err \<Rightarrow> Returns ([], Some err)
      | Inr siro \<Rightarrow>
          if length siro > 0 then
            bind_outcome (rand_Intn r1 (length siro))
              (\<lambda>i. Returns (aws_ToString (sir_InstanceId (siro ! i)), None))
          else
            (case getInstanceByTag ec2Client tagName tagValue of
               Inl err \<Rightarrow> Returns ([], Some err)
             | Inr dio \<Rightarrow>
                 if length dio > 0 then
                   bind_outcome (rand_Intn r1 (length dio))
                     (\<lambda>i. let res = dio ! i in
                        bind_outcome (rand_Intn r2 (length (Instances res)))
                          (\<lambda>j. Returns (aws_ToString (InstanceId (Instances res ! j)), None)))
                 else
                   Returns ([], Some (ErrorString ''unable to find any valid bastion instances''))))"

section \<open>Library functions the endpoint code calls\<close>

text \<open>
  \<open>strings.Split s sep\<close> for a separator of one byte (the program passes \<open>"@"\<close> and
  \<open>":"\<close>): the pieces of \<open>s\<close> between the separators, one more than there are separators.
\<close>

fun strings_Split :: "string \<Rightarrow> char \<Rightarrow> string list" where
  "strings_Split [] sep = [[]]"
| "strings_Split (x # xs) sep =
     (if x = sep then [] # strings_Split xs sep
      else (let ps = strings_Split xs sep in (x # hd ps) # tl ps))"

definition is_digit :: "char \<Rightarrow> bool" where
  "is_digit c = (48 \<le> (of_char c :: nat) \<and> (of_char c :: nat) \<le> 57)"

definition digit_val :: "char \<Rightarrow> nat" where
  "digit_val c = of_char c - 48"

definition parse_digits :: "string \<Rightarrow> nat option" where
  "parse_digits ds =
     (if ds \<noteq> [] \<and> list_all is_digit ds
      then Some (foldl (\<lambda>n c. n * 10 + digit_val c) 0 ds) else None)"

text \<open>
  \<open>strconv.Atoi\<close> on a 64-bit platform: an optional sign and at least one decimal digit.
  A syntax error gives 0, a value out of the range of \<open>int\<close> gives the nearest bound; both
  come with an error.
\<close>

definition strconv_Atoi :: "string \<Rightarrow> int \<times> go_error option" where
  "strconv_Atoi s =
     (case s of
        [] \<Rightarrow> (0, Some (ErrorString ''strconv.Atoi: invalid syntax''))
      | c # cs \<Rightarrow>
          (let neg = (c = CHR ''-'');
               ds = (if c = CHR ''-'' \<or> c = CHR ''+'' then cs else s)
           in case parse_digits ds of
                None \<Rightarrow> (0, Some (ErrorString ''strconv.Atoi: invalid syntax''))
              | Some n \<Rightarrow>
                  (let v = (if neg then - int n else int n)
                   in if v > 2 ^ 63 - 1
                      then (2 ^ 63 - 1, Some (ErrorString ''strconv.Atoi: value out of range''))
                      else if v < - (2 ^ 63)
                      then (- (2 ^ 63), Some (ErrorString ''strconv.Atoi: value out of range''))
                      else (v, None))))"

text \<open>The verb \<open>%d\<close> of \<open>fmt.Sprintf\<close>: an \<open>int\<close> in decimal.\<close>

fun nat_dec :: "nat \<Rightarrow> string" where
  "nat_dec n =
     (if n < 10 then [''0123456789'' ! n]
      else nat_dec (n div 10) @ [''0123456789'' ! (n mod 10)])"

definition fmt_d :: "int \<Rightarrow> string" where
  "fmt_d n = (if n < 0 then CHR ''-'' # nat_dec (nat (- n)) else nat_dec (nat n))"

text \<open>
  \<open>errors.As(err, &te)\<close> for \<open>te\<close> of type \<open>*connecttypes.ThrottlingException\<close>: whether the
  chain of \<open>err\<close> holds a throttling exception.
\<close>

fun errors_As_ThrottlingException :: "go_error \<Rightarrow> bool" where
  "errors_As_ThrottlingException (ThrottlingException m) = True"
| "errors_As_ThrottlingException (WrapError m cause) = errors_As_ThrottlingException cause"
| "errors_As_ThrottlingException (ExitError st m) = False"
| "errors_As_ThrottlingException (ErrorString m) = False"

section \<open>Package sshutils: the world outside the program\<close>

record SendSSHPublicKeyInput =
  sski_AvailabilityZone :: "string option"
  sski_InstanceId :: "string option"
  sski_InstanceOSUser :: "string option"
  sski_SSHPublicKey :: "string option"

record SendSSHPublicKeyOutput =
  Success :: bool
  RequestId :: "string option"

text \<open>\<open>*ssh.ClientConfig\<close> as \<open>GetSSHConfig\<close> fills it: the user, the signer of the one
  public-key auth method, and a host key callback that accepts every host key.\<close>

datatype Signer = Signer string

datatype HostKeyCallback = InsecureIgnoreHostKey

record ClientConfig =
  cfg_User :: string
  cfg_Auth :: "Signer list"
  cfg_HostKeyCallback :: HostKeyCallback

text \<open>SSH clients, network connections and sessions are handles the library gives out.\<close>

type_synonym ssh_Client = nat
type_synonym net_Conn = nat
type_synonym ssh_Session = nat
type_synonym term_State = nat

text \<open>Every call that leaves the program, in the order the program makes them.\<close>

datatype event =
    Ev_SendSSHPublicKey SendSSHPublicKeyInput
  | Ev_log_Fatal string
  | Ev_slog_Error string
  | Ev_ssh_Dial string ClientConfig
  | Ev_Client_Dial ssh_Client string
  | Ev_NewClientConn net_Conn string ClientConfig
  | Ev_NewSession ssh_Client
  | Ev_MakeRaw
  | Ev_GetSize
  | Ev_RequestPty ssh_Session string int int "(string \<times> nat) list"
  | Ev_Shell ssh_Session
  | Ev_Wait ssh_Session
  | Ev_Restore term_State
  | Ev_Session_Close ssh_Session
  | Ev_os_Exit int
  | Ev_Listen int
  | Ev_Accept
  | Ev_Listener_Close
  | Ev_go_forward net_Conn
  | Ev_go_copyConn net_Conn net_Conn
  | Ev_io_Copy net_Conn net_Conn

text \<open>
  What the world answers. \<open>GenerateKeys k\<close> stands for the \<open>k\<close>-th call of the function
  \<open>GenerateKeys\<close>, whose source is not part of the files at hand: the triple it returns
  (private key, public key, error). \<open>Accept\<close> lists what the successive calls of
  \<open>listener.Accept\<close> return; after the last of them the call waits for ever. \<open>rand1\<close> and
  \<open>rand2\<close> are the raw draws behind the calls of \<open>rand.Intn\<close>.
\<close>

record world =
  LoadDefaultConfig :: "go_error option"
  ec2 :: ec2_Client
  rand1 :: nat
  rand2 :: nat
  GenerateKeys :: "nat \<Rightarrow> string \<times> string \<times> go_error option"
  SendSSHPublicKey :: "SendSSHPublicKeyInput \<Rightarrow> go_error + SendSSHPublicKeyOutput"
  ParsePrivateKey :: "string \<Rightarrow> go_error + Signer"
  ssh_Dial :: "string \<Rightarrow> ClientConfig \<Rightarrow> go_error + ssh_Client"
  Client_Dial :: "ssh_Client \<Rightarrow> string \<Rightarrow> go_error + net_Conn"
  NewClientConn :: "net_Conn \<Rightarrow> string \<Rightarrow> ClientConfig \<Rightarrow> go_error + ssh_Client"
  NewSession :: "ssh_Client \<Rightarrow> go_error + ssh_Session"
  IsTerminal :: bool
  MakeRaw :: "go_error + term_State"
  GetSize :: "go_error + int \<times> int"
  RequestPty :: "ssh_Session \<Rightarrow> string \<Rightarrow> int \<Rightarrow> int \<Rightarrow> go_error option"
  Shell :: "ssh_Session \<Rightarrow> go_error option"
  Wait :: "ssh_Session \<Rightarrow> go_error option"
  Listen :: "int \<Rightarrow> go_error option"
  Accept :: "(go_error + net_Conn) list"
  io_Copy :: "net_Conn \<Rightarrow> net_Conn \<Rightarrow> go_error option"

section \<open>Package sshutils: EC2Endpoint\<close>

text \<open>
  The struct \<open>EC2Endpoint\<close>. \<open>Instance\<close> is a pointer, \<open>nil\<close> until \<open>getEC2Instance\<close> has
  found the instance. The two client pointers of the struct refer to the clients of the
  process; the model passes these (\<open>ec2_Client\<close>, \<open>world\<close>) to the functions that use them.
\<close>

record EC2Endpoint =
  InstanceID :: string
  Port :: int
  User :: string
  PrivateKey :: string
  PublicKey :: string
  UsePrivate :: bool
  Instance :: "Instance option"

definition getEC2Instance :: "string \<Rightarrow> ec2_Client \<Rightarrow> Instance option \<times> go_error option" where
  "getEC2Instance ident client =
     (case DescribeInstances client \<lparr>dii_Filters = [], dii_InstanceIds = [ident]\<rparr> of
        Inl err \<Rightarrow> (None, Some err)
      | Inr reservations \<Rightarrow>
          if length reservations = 0 \<or> length (Instances (reservations ! 0)) = 0
          then (None, Some (ErrorString ''instance not found''))
          else (Some (Instances (reservations ! 0) ! 0), None))"

text \<open>
  \<open>NewEC2Endpoint\<close>. It returns the endpoint also when it returns an error. \<open>keys\<close> is what
  \<open>GenerateKeys()\<close> returns: private key, public key, error.
\<close>

definition NewEC2Endpoint ::
  "string \<times> string \<times> go_error option \<Rightarrow> string \<Rightarrow> ec2_Client \<Rightarrow> EC2Endpoint \<times> go_error option" where
  "NewEC2Endpoint keys InstanceID0 ec2Client =
     (let endpoint = \<lparr>InstanceID = InstanceID0, Port = 22, User = ''ec2-user'',
                       PrivateKey = [], PublicKey = [], UsePrivate = False, Instance = None\<rparr>;
          parts = strings_Split (InstanceID endpoint) CHR ''@'';
          endpoint = (if length parts > 1
                      then endpoint\<lparr>User := parts ! 0, InstanceID := parts ! 1\<rparr>
                      else endpoint);
          parts = strings_Split (InstanceID endpoint) CHR '':'';
          endpoint = (if length parts > 1
                      then endpoint\<lparr>InstanceID := parts ! 0,
                                    Port := fst (strconv_Atoi (parts ! 1))\<rparr>
                      else endpoint);
          endpoint = endpoint\<lparr>PrivateKey := fst keys, PublicKey := fst (snd keys)\<rparr>
      in case snd (snd keys) of
           Some err \<Rightarrow> (endpoint, Some err)
         | None \<Rightarrow>
             (let (inst, err) = getEC2Instance (InstanceID endpoint) ec2Client;
                  endpoint = endpoint\<lparr>Instance := inst\<rparr>
              in case err of
                   Some err \<Rightarrow> (endpoint, Some err)
                 | None \<Rightarrow> (endpoint, None)))"

text \<open>
  \<open>sendPublicKey\<close>: the events so far, extended by the call it makes, and the error it
  returns (\<open>None\<close> is \<open>nil\<close>).
\<close>

definition sendPublicKey ::
  "world \<Rightarrow> event list \<Rightarrow> Instance \<Rightarrow> string \<Rightarrow> string \<Rightarrow> event list \<times> go_error option" where
  "sendPublicKey w evs instance user publicKey =
     (let inp = \<lparr>sski_AvailabilityZone = Placement_AvailabilityZone instance,
                 sski_InstanceId = InstanceId instance,
                 sski_InstanceOSUser = Some user,
                 sski_SSHPublicKey = Some publicKey\<rparr>;
          evs = evs @ [Ev_SendSSHPublicKey inp]
      in case SendSSHPublicKey w inp of
           Inl err \<Rightarrow>
             if errors_As_ThrottlingException err then (evs, None)
             else (evs, Some (WrapError (''send public key error: '' @ Error err) err))
         | Inr out \<Rightarrow>
             if \<not> Success out
             then (evs, Some (ErrorString
                    (''request failed but no error was returned. Request ID: ''
                       @ aws_ToString (RequestId out))))
             else (evs, None))"

text \<open>
  The method \<open>String\<close> of \<open>*EC2Endpoint\<close>. \<open>log.Fatal\<close> prints the error and ends the process
  with status 1. An endpoint whose \<open>Instance\<close> is \<open>nil\<close> makes \<open>sendPublicKey\<close> follow a nil
  pointer.
\<close>

definition EC2Endpoint_String :: "world \<Rightarrow> event list \<Rightarrow> EC2Endpoint \<Rightarrow> event list \<times> string outcome" where
  "EC2Endpoint_String w evs e =
     (case Instance e of
        None \<Rightarrow> (evs, Panics ''invalid memory address or nil pointer dereference'')
      | Some inst \<Rightarrow>
          (let (evs, err) = sendPublicKey w evs inst (User e) (PublicKey e)
           in case err of
                Some err \<Rightarrow> (evs @ [Ev_log_Fatal (Error err)], Exits 1)
              | None \<Rightarrow>
                  if UsePrivate e
                  then (evs, Returns (aws_ToString (PrivateIpAddress inst) @ '':'' @ fmt_d (Port e)))
                  else (evs, Returns (aws_ToString (PublicIpAddress inst) @ '':'' @ fmt_d (Port e)))))"

text \<open>The method \<open>GetSSHConfig\<close>: the error, or the configuration (never both).\<close>

definition EC2Endpoint_GetSSHConfig :: "world \<Rightarrow> EC2Endpoint \<Rightarrow> go_error + ClientConfig" where
  "EC2Endpoint_GetSSHConfig w e =
     (case ParsePrivateKey w (PrivateKey e) of
        Inl err \<Rightarrow> Inl err
      | Inr key \<Rightarrow>
          Inr \<lparr>cfg_User = User e, cfg_Auth = [key],
                cfg_HostKeyCallback = InsecureIgnoreHostKey\<rparr>)"

section \<open>Package sshutils: Connect\<close>

text \<open>
  Modelled from the spec: the interface \<open>EndpointIface\<close>, whose declaration is not in the
  files at hand. The specification gives it exactly two operations, resolve the address
  and produce the auth configuration; the callers in the files use them as \<open>String()\<close> and
  \<open>GetSSHConfig()\<close>. An interface value is the pair of its methods.
\<close>

record EndpointIface =
  iface_String :: "world \<Rightarrow> event list \<Rightarrow> event list \<times> string outcome"
  iface_GetSSHConfig :: "world \<Rightarrow> go_error + ClientConfig"

text \<open>An \<open>*EC2Endpoint\<close> as an \<open>EndpointIface\<close>.\<close>

definition EC2Endpoint_iface :: "EC2Endpoint \<Rightarrow> EndpointIface" where
  "EC2Endpoint_iface e =
     \<lparr>iface_String = (\<lambda>w evs. EC2Endpoint_String w evs e),
      iface_GetSSHConfig = (\<lambda>w. EC2Endpoint_GetSSHConfig w e)\<rparr>"

text \<open>
  The loop of \<open>Connect\<close> over the endpoints. \<open>client\<close> is the variable of that name, \<open>None\<close>
  for \<open>nil\<close>. The loop ends in \<open>Inl r\<close> when a \<open>return r\<close> inside it leaves \<open>Connect\<close>, and in
  \<open>Inr client\<close> when it has run through all endpoints.
\<close>

fun Connect_loop ::
  "world \<Rightarrow> event list \<Rightarrow> ssh_Client option \<Rightarrow> EndpointIface list
     \<Rightarrow> event list \<times> (go_error option + ssh_Client option) outcome" where
  "Connect_loop w evs client [] = (evs, Returns (Inr client))"
| "Connect_loop w evs client (bastionEndpoint # rest) =
     (case iface_GetSSHConfig bastionEndpoint w of
        Inl err \<Rightarrow> (evs, Returns (Inl None))
      | Inr sshConfig \<Rightarrow>
          (case iface_String bastionEndpoint w evs of
             (evs, Exits st) \<Rightarrow> (evs, Exits st)
           | (evs, Panics m) \<Rightarrow> (evs, Panics m)
           | (evs, Blocks) \<Rightarrow> (evs, Blocks)
           | (evs, Returns serviceAddr) \<Rightarrow>
               (case client of
                  None \<Rightarrow>
                    (case ssh_Dial w serviceAddr sshConfig of
                       Inl err \<Rightarrow>
                         (evs @ [Ev_ssh_Dial serviceAddr sshConfig],
                          Returns (Inl (Some (ErrorString (''failed to dial: '' @ Error err)))))
                     | Inr c \<Rightarrow>
                         Connect_loop w (evs @ [Ev_ssh_Dial serviceAddr sshConfig]) (Some c) rest)
                | Some prev \<Rightarrow>
                    (case Client_Dial w prev serviceAddr of
                       Inl err \<Rightarrow>
                         (evs @ [Ev_Client_Dial prev serviceAddr],
                          Returns (Inl (Some (ErrorString (''failed to dial: '' @ Error err)))))
                     | Inr conn \<Rightarrow>
                         (case NewClientConn w conn serviceAddr sshConfig of
                            Inl err \<Rightarrow>
                              (evs @ [Ev_Client_Dial prev serviceAddr,
                                      Ev_NewClientConn conn serviceAddr sshConfig],
                               Returns (Inl (Some (ErrorString
                                 (''failed to create new ssh connection to '' @ serviceAddr
                                    @ '': '' @ Error err)))))
                          | Inr c \<Rightarrow>
                              Connect_loop w
                                (evs @ [Ev_Client_Dial prev serviceAddr,
                                        Ev_NewClientConn conn serviceAddr sshConfig])
                                (Some c) rest)))))"

definition modes :: "(string \<times> nat) list" where
  "modes = [(''ECHO'', 1), (''TTY_OP_ISPEED'', 14400), (''TTY_OP_OSPEED'', 14400)]"

text \<open>
  The end of \<open>Connect\<close>: \<open>sess.Shell()\<close> and \<open>sess.Wait()\<close>. \<open>deferred\<close> are the calls the function
  has deferred so far, in the order they run at a \<open>return\<close>. \<open>os.Exit\<close> ends the process at
  once: deferred calls do not run.
\<close>

definition Connect_shell ::
  "world \<Rightarrow> event list \<Rightarrow> ssh_Session \<Rightarrow> event list \<Rightarrow> event list \<times> go_error option outcome" where
  "Connect_shell w evs sess deferred =
     (case Shell w sess of
        Some err \<Rightarrow>
          (evs @ [Ev_Shell sess, Ev_slog_Error ''failed to start shell'', Ev_os_Exit 1], Exits 1)
      | None \<Rightarrow>
          (evs @ [Ev_Shell sess, Ev_Wait sess] @ deferred, Returns (Wait w sess)))"

text \<open>The part of \<open>Connect\<close> after the loop, for the client the loop has left.\<close>

definition Connect_session ::
  "world \<Rightarrow> event list \<Rightarrow> ssh_Client \<Rightarrow> event list \<times> go_error option outcome" where
  "Connect_session w evs client =
     (case NewSession w client of
        Inl err \<Rightarrow>
          (evs @ [Ev_NewSession client],
           Returns (Some (ErrorString (''failed to create new session: '' @ Error err))))
      | Inr sess \<Rightarrow>
          (let evs = evs @ [Ev_NewSession client] in
           if IsTerminal w then
             (case MakeRaw w of
                Inl err \<Rightarrow> (evs @ [Ev_MakeRaw, Ev_Session_Close sess], Returns None)
              | Inr originalState \<Rightarrow>
                  (case GetSize w of
                     Inl err \<Rightarrow>
                       (evs @ [Ev_MakeRaw, Ev_GetSize,
                               Ev_Restore originalState, Ev_Session_Close sess],
                        Returns (Some err))
                   | Inr (termWidth, termHeight) \<Rightarrow>
                       (case RequestPty w sess ''xterm-256color'' termHeight termWidth of
                          Some err \<Rightarrow>
                            (evs @ [Ev_MakeRaw, Ev_GetSize,
                                    Ev_RequestPty sess ''xterm-256color'' termHeight termWidth modes,
                                    Ev_Restore originalState, Ev_Session_Close sess],
                             Returns (Some err))
                        | None \<Rightarrow>
                            Connect_shell w
                              (evs @ [Ev_MakeRaw, Ev_GetSize,
                                      Ev_RequestPty sess ''xterm-256color'' termHeight termWidth modes])
                              sess [Ev_Restore originalState, Ev_Session_Close sess])))
           else Connect_shell w evs sess [Ev_Session_Close sess]))"

text \<open>
  \<open>Connect\<close>. With no endpoint at all the loop leaves \<open>client\<close> \<open>nil\<close>, and
  \<open>client.NewSession()\<close> follows a nil pointer.
\<close>

definition Connect ::
  "world \<Rightarrow> event list \<Rightarrow> EndpointIface list \<Rightarrow> event list \<times> go_error option outcome" where
  "Connect w evs bastionEndpoints =
     (case Connect_loop w evs None bastionEndpoints of
        (evs, Exits st) \<Rightarrow> (evs, Exits st)
      | (evs, Panics m) \<Rightarrow> (evs, Panics m)
      | (evs, Blocks) \<Rightarrow> (evs, Blocks)
      | (evs, Returns (Inl r)) \<Rightarrow> (evs, Returns r)
      | (evs, Returns (Inr None)) \<Rightarrow>
          (evs, Panics ''invalid memory address or nil pointer dereference'')
      | (evs, Returns (Inr (Some client))) \<Rightarrow> Connect_session w evs client)"

section \<open>Package sshutils: Tunnel\<close>

text \<open>
  The goroutine \<open>copyConn\<close> of \<open>forward\<close>: one \<open>io.Copy\<close>, whose error is logged.
\<close>

definition copyConn :: "world \<Rightarrow> event list \<Rightarrow> net_Conn \<Rightarrow> net_Conn \<Rightarrow> event list \<times> unit outcome" where
  "copyConn w evs writer reader =
     (case io_Copy w writer reader of
        Some err \<Rightarrow> (evs @ [Ev_io_Copy writer reader, Ev_slog_Error ''io.Copy error''], Returns ())
      | None \<Rightarrow> (evs @ [Ev_io_Copy writer reader], Returns ()))"

text \<open>
  \<open>forward\<close>, the function every goroutine of the tunnel runs. After an error of
  \<open>GetSSHConfig\<close> it logs and goes on with a \<open>nil\<close> configuration, which \<open>ssh.Dial\<close> follows.
  The arguments of the two debug messages are computed whatever the log level is, so each
  endpoint's \<open>String\<close> runs twice. The two \<open>copyConn\<close> goroutines are recorded as started.
\<close>

definition forward ::
  "world \<Rightarrow> event list \<Rightarrow> EndpointIface \<Rightarrow> EndpointIface \<Rightarrow> net_Conn \<Rightarrow> event list \<times> unit outcome" where
  "forward w evs remoteHost bastionEndpoint localConn =
     (let cfg = iface_GetSSHConfig bastionEndpoint w;
          evs = (case cfg of Inl err \<Rightarrow> evs @ [Ev_slog_Error (Error err)] | Inr c \<Rightarrow> evs)
      in case iface_String bastionEndpoint w evs of
           (evs, Exits st) \<Rightarrow> (evs, Exits st)
         | (evs, Panics m) \<Rightarrow> (evs, Panics m)
         | (evs, Blocks) \<Rightarrow> (evs, Blocks)
         | (evs, Returns bastionAddr) \<Rightarrow>
             (case cfg of
                Inl err \<Rightarrow> (evs, Panics ''invalid memory address or nil pointer dereference'')
              | Inr sshConfig \<Rightarrow>
                  (case ssh_Dial w bastionAddr sshConfig of
                     Inl err \<Rightarrow>
                       (evs @ [Ev_ssh_Dial bastionAddr sshConfig, Ev_slog_Error ''server dial error''],
                        Returns ())
                   | Inr serverConn \<Rightarrow>
                       (case iface_String bastionEndpoint w
                               (evs @ [Ev_ssh_Dial bastionAddr sshConfig]) of
                          (evs, Exits st) \<Rightarrow> (evs, Exits st)
                        | (evs, Panics m) \<Rightarrow> (evs, Panics m)
                        | (evs, Blocks) \<Rightarrow> (evs, Blocks)
                        | (evs, Returns a) \<Rightarrow>
                            (case iface_String remoteHost w evs of
                               (evs, Exits st) \<Rightarrow> (evs, Exits st)
                             | (evs, Panics m) \<Rightarrow> (evs, Panics m)
                             | (evs, Blocks) \<Rightarrow> (evs, Blocks)
                             | (evs, Returns remoteAddr) \<Rightarrow>
                                 (case Client_Dial w serverConn remoteAddr of
                                    Inl err \<Rightarrow>
                                      (evs @ [Ev_Client_Dial serverConn remoteAddr,
                                              Ev_slog_Error ''remote dial error''],
                                       Returns ())
                                  | Inr remoteConn \<Rightarrow>
                                      (case iface_String remoteHost w
                                              (evs @ [Ev_Client_Dial serverConn remoteAddr]) of
                                         (evs, Exits st) \<Rightarrow> (evs, Exits st)
                                       | (evs, Panics m) \<Rightarrow> (evs, Panics m)
                                       | (evs, Blocks) \<Rightarrow> (evs, Blocks)
                                       | (evs, Returns b) \<Rightarrow>
                                           (evs @ [Ev_go_copyConn localConn remoteConn,
                                                   Ev_go_copyConn remoteConn localConn],
                                            Returns ()))))))))"

text \<open>
  The accept loop of \<open>Tunnel\<close>. It starts one goroutine \<open>forward\<close> per accepted connection
  and never looks at it again. It returns when \<open>Accept\<close> fails; the deferred
  \<open>listener.Close()\<close> runs then.
\<close>

fun Tunnel_accept :: "event list \<Rightarrow> (go_error + net_Conn) list \<Rightarrow> event list \<times> go_error option outcome" where
  "Tunnel_accept evs [] = (evs @ [Ev_Accept], Blocks)"
| "Tunnel_accept evs (Inl err # later) = (evs @ [Ev_Accept, Ev_Listener_Close], Returns (Some err))"
| "Tunnel_accept evs (Inr conn # later) = Tunnel_accept (evs @ [Ev_Accept, Ev_go_forward conn]) later"

definition Tunnel ::
  "world \<Rightarrow> event list \<Rightarrow> int \<Rightarrow> EndpointIface \<Rightarrow> EndpointIface \<Rightarrow> event list \<times> go_error option outcome" where
  "Tunnel w evs localPort remoteHost bastionHost =
     (case Listen w localPort of
        Some err \<Rightarrow> (evs @ [Ev_Listen localPort], Returns (Some err))
      | None \<Rightarrow> Tunnel_accept (evs @ [Ev_Listen localPort]) (Accept w))"

section \<open>Package main: run and main\<close>

text \<open>The values of the command line flags and the arguments, as \<open>cli.Context\<close> gives them.\<close>

record flags =
  flag_debug :: bool
  flag_region :: string
  flag_tag :: string
  flag_instance_id :: string
  flag_user :: string
  flag_port :: int
  flag_tunnel :: string
  flag_local_port :: int
  flag_args :: "string list"

text \<open>
  The struct \<open>Endpoint\<close> of package sshutils is not in the files at hand; \<open>run\<close> reads its
  fields \<open>Host\<close> and \<open>Port\<close>. \<open>run\<close> takes the function \<open>NewEndpoint\<close> and the methods of an
  \<open>Endpoint\<close> as arguments.
\<close>

record Endpoint =
  Endpoint_Host :: string
  Endpoint_Port :: int

text \<open>The loop of \<open>run\<close> over the destinations; \<open>k\<close> counts the calls of \<open>GenerateKeys\<close>.\<close>

fun run_destinations ::
  "world \<Rightarrow> nat \<Rightarrow> string list \<Rightarrow> EndpointIface list \<Rightarrow> go_error + EndpointIface list" where
  "run_destinations w k [] chain = Inr chain"
| "run_destinations w k (ep # eps) chain =
     (case NewEC2Endpoint (GenerateKeys w k) ep (ec2 w) of
        (destEndpoint, Some err) \<Rightarrow> Inl err
      | (destEndpoint, None) \<Rightarrow>
          run_destinations w (Suc k) eps
            (chain @ [EC2Endpoint_iface (destEndpoint\<lparr>UsePrivate := True\<rparr>)]))"

definition run ::
  "(string \<Rightarrow> Endpoint) \<Rightarrow> (Endpoint \<Rightarrow> EndpointIface) \<Rightarrow> world \<Rightarrow> flags
     \<Rightarrow> event list \<times> go_error option outcome" where
  "run NewEndpoint Endpoint_iface w c =
     (let parts = strings_Split (flag_tag c) CHR '':'' in
      if length parts \<noteq> 2
      then ([], Returns (Some (ErrorString
              (flag_tag c @ '' is not a valid tag definition, use key:value''))))
      else
        (let tagName = parts ! 0; tagValue = parts ! 1 in
         case LoadDefaultConfig w of
           Some err \<Rightarrow> ([Ev_slog_Error ''unable to load SDK config'', Ev_os_Exit 1], Exits 1)
         | None \<Rightarrow>
             (case (if flag_instance_id c = []
                    then resolveBastionInstanceID (ec2 w) (rand1 w) (rand2 w) tagName tagValue
                    else Returns (flag_instance_id c, None)) of
                Exits st \<Rightarrow> ([], Exits st)
              | Panics m \<Rightarrow> ([], Panics m)
              | Blocks \<Rightarrow> ([], Blocks)
              | Returns (instanceID, Some err) \<Rightarrow> ([], Returns (Some err))
              | Returns (instanceID, None) \<Rightarrow>
                  (let bastionAddr =
                         flag_user c @ ''@'' @ instanceID @ '':'' @ fmt_d (flag_port c) in
                   case NewEC2Endpoint (GenerateKeys w 0) bastionAddr (ec2 w) of
                     (bastionEndpoint, Some err) \<Rightarrow> ([], Returns (Some err))
                   | (bastionEndpoint, None) \<Rightarrow>
                       (let tunnel = NewEndpoint (flag_tunnel c) in
                        if Endpoint_Host tunnel \<noteq> []
                        then
                          (let p = (if flag_local_port c = 0 then Endpoint_Port tunnel
                                    else flag_local_port c)
                           in Tunnel w [] p (Endpoint_iface tunnel)
                                (EC2Endpoint_iface bastionEndpoint))
                        else
                          (case run_destinations w 1 (flag_args c)
                                  [EC2Endpoint_iface bastionEndpoint] of
                             Inl err \<Rightarrow> ([], Returns (Some err))
                           | Inr chain \<Rightarrow> Connect w [] chain))))))"

text \<open>
  \<open>main\<close>, after the command line has been read: the events and the exit status of the
  process (\<open>None\<close> when it never ends). A \<open>nil\<close> error lets \<open>main\<close> return, which is status 0; an
  \<open>*ssh.ExitError\<close> gives its own status; a panic ends a Go process with status 2.
\<close>

definition main ::
  "(string \<Rightarrow> Endpoint) \<Rightarrow> (Endpoint \<Rightarrow> EndpointIface) \<Rightarrow> world \<Rightarrow> flags
     \<Rightarrow> event list \<times> int option" where
  "main NewEndpoint Endpoint_iface w c =
     (case run NewEndpoint Endpoint_iface w c of
        (evs, Returns None) \<Rightarrow> (evs, Some 0)
      | (evs, Returns (Some (ExitError st m))) \<Rightarrow> (evs @ [Ev_os_Exit st], Some st)
      | (evs, Returns (Some err)) \<Rightarrow> (evs @ [Ev_slog_Error (Error err), Ev_os_Exit 1], Some 1)
      | (evs, Exits st) \<Rightarrow> (evs, Some st)
      | (evs, Panics m) \<Rightarrow> (evs, Some 2)
      | (evs, Blocks) \<Rightarrow> (evs, None))"

section \<open>Example values\<close>

text \<open>An instance, an endpoint and a world in which every call succeeds, for the
  theorems that are checked at a concrete input.\<close>

definition example_instance :: Instance where
  "example_instance =
     \<lparr>InstanceId = Some ''i-0123'', PrivateIpAddress = Some ''10.0.0.7'',
      PublicIpAddress = Some ''203.0.113.9'', Placement_AvailabilityZone = Some ''eu-west-1a''\<rparr>"

definition example_endpoint :: EC2Endpoint where
  "example_endpoint =
     \<lparr>InstanceID = ''i-0123'', Port = 22, User = ''ec2-user'', PrivateKey = ''PRIVATE'',
      PublicKey = ''PUBLIC'', UsePrivate = False, Instance = Some example_instance\<rparr>"

definition example_world :: world where
  "example_world =
     \<lparr>LoadDefaultConfig = None,
      ec2 = \<lparr>DescribeSpotInstanceRequests = (\<lambda>fs. Inr []),
             DescribeInstances = (\<lambda>inp. Inr [\<lparr>Instances = [example_instance]\<rparr>])\<rparr>,
      rand1 = 0, rand2 = 0,
      GenerateKeys = (\<lambda>k. (''PRIVATE'', ''PUBLIC'', None)),
      SendSSHPublicKey = (\<lambda>inp. Inr \<lparr>Success = True, RequestId = Some ''r-1''\<rparr>),
      ParsePrivateKey = (\<lambda>pem. Inr (Signer pem)),
      ssh_Dial = (\<lambda>addr cfg. Inr 1),
      Client_Dial = (\<lambda>c addr. Inr (c + 100)),
      NewClientConn = (\<lambda>conn addr cfg. Inr (conn - 99)),
      NewSession = (\<lambda>c. Inr 7),
      IsTerminal = True,
      MakeRaw = Inr 3,
      GetSize = Inr (80, 24),
      RequestPty = (\<lambda>sess t h wd. None),
      Shell = (\<lambda>sess. None),
      Wait = (\<lambda>sess. None),
      Listen = (\<lambda>p. None),
      Accept = [],
      io_Copy = (\<lambda>a b. None)\<rparr>"

definition example_flags :: flags where
  "example_flags =
     \<lparr>flag_debug = False, flag_region = [], flag_tag = ''role:bastion'',
      flag_instance_id = ''i-0123'', flag_user = ''ec2-user'', flag_port = 22,
      flag_tunnel = [], flag_local_port = 0, flag_args = []\<rparr>"

definition example_NewEndpoint :: "string \<Rightarrow> Endpoint" where
  "example_NewEndpoint s = \<lparr>Endpoint_Host = s, Endpoint_Port = 0\<rparr>"

definition example_Endpoint_iface :: "Endpoint \<Rightarrow> EndpointIface" where
  "example_Endpoint_iface t =
     \<lparr>iface_String = (\<lambda>w evs. (evs, Returns (Endpoint_Host t))),
      iface_GetSSHConfig = (\<lambda>w. Inl (ErrorString ''no key''))\<rparr>"

section \<open>Properties of the instance resolver\<close>

lemma rand_Intn_range: "0 < n \<Longrightarrow> \<exists>i < n. rand_Intn raw n = Returns i"
  by (simp add: rand_Intn_def)

lemma resolve_spot_nonempty:
  assumes "getSpotRequestByTag c k v = Inr siro" and "siro \<noteq> []"
  shows "\<exists>s \<in> set siro.
           resolveBastionInstanceID c r1 r2 k v = Returns (aws_ToString (sir_InstanceId s), None)"
proof -
  from assms(2) have "r1 mod length siro < length siro" by simp
  then have "siro ! (r1 mod length siro) \<in> set siro" by (rule nth_mem)
  moreover have "resolveBastionInstanceID c r1 r2 k v =
      Returns (aws_ToString (sir_InstanceId (siro ! (r1 mod length siro))), None)"
    using assms by (simp add: resolveBastionInstanceID_def rand_Intn_def)
  ultimately show ?thesis by blast
qed

lemma resolve_both_empty:
  assumes "getSpotRequestByTag c k v = Inr []" and "getInstanceByTag c k v = Inr []"
  shows "resolveBastionInstanceID c r1 r2 k v =
           Returns ([], Some (ErrorString ''unable to find any valid bastion instances''))"
  using assms by (simp add: resolveBastionInstanceID_def)

lemma resolve_instances_nonempty:
  assumes "getSpotRequestByTag c k v = Inr []" and "getInstanceByTag c k v = Inr dio"
    and "dio \<noteq> []" and "Instances (dio ! (r1 mod length dio)) \<noteq> []"
  shows "\<exists>res \<in> set dio. \<exists>inst \<in> set (Instances res).
           resolveBastionInstanceID c r1 r2 k v = Returns (aws_ToString (InstanceId inst), None)"
proof -
  let ?res = "dio ! (r1 mod length dio)"
  let ?inst = "Instances ?res ! (r2 mod length (Instances ?res))"
  from assms(3) have "r1 mod length dio < length dio" by simp
  then have res: "?res \<in> set dio" by (rule nth_mem)
  from assms(4) have "r2 mod length (Instances ?res) < length (Instances ?res)" by simp
  then have inst: "?inst \<in> set (Instances ?res)" by (rule nth_mem)
  have "resolveBastionInstanceID c r1 r2 k v = Returns (aws_ToString (InstanceId ?inst), None)"
    using assms by (simp add: resolveBastionInstanceID_def rand_Intn_def Let_def)
  with res inst show ?thesis by blast
qed

lemma resolve_returns_when_reservations_filled:
  assumes "\<forall>dio. getInstanceByTag c k v = Inr dio \<longrightarrow> (\<forall>res \<in> set dio. Instances res \<noteq> [])"
  shows "\<exists>ret. resolveBastionInstanceID c r1 r2 k v = Returns ret"
proof (cases "getSpotRequestByTag c k v")
  case (Inl err)
  then show ?thesis by (simp add: resolveBastionInstanceID_def)
next
  case (Inr siro)
  show ?thesis
  proof (cases "siro = []")
    case False
    with Inr show ?thesis by (simp add: resolveBastionInstanceID_def rand_Intn_def)
  next
    case True
    note spot = Inr [unfolded True]
    show ?thesis
    proof (cases "getInstanceByTag c k v")
      case (Inl err)
      with spot show ?thesis by (simp add: resolveBastionInstanceID_def)
    next
      case dio: (Inr dio)
      show ?thesis
      proof (cases "dio = []")
        case True
        with spot dio show ?thesis by (simp add: resolveBastionInstanceID_def)
      next
        case False
        then have "dio ! (r1 mod length dio) \<in> set dio" by simp
        with assms dio have "Instances (dio ! (r1 mod length dio)) \<noteq> []" by blast
        with spot dio False show ?thesis
          by (simp add: resolveBastionInstanceID_def rand_Intn_def Let_def)
      qed
    qed
  qed
qed

lemma resolve_selected_reservation_empty:
  assumes "getSpotRequestByTag c k v = Inr []" and "getInstanceByTag c k v = Inr dio"
    and "dio \<noteq> []" and "Instances (dio ! (r1 mod length dio)) = []"
  shows "resolveBastionInstanceID c r1 r2 k v = Panics ''invalid argument to Intn''"
  using assms by (simp add: resolveBastionInstanceID_def rand_Intn_def Let_def)

lemma resolve_some_draw_panics:
  assumes "getSpotRequestByTag c k v = Inr []" and "getInstanceByTag c k v = Inr dio"
    and "res \<in> set dio" and "Instances res = []"
  shows "\<exists>r1. resolveBastionInstanceID c r1 r2 k v = Panics ''invalid argument to Intn''"
proof -
  from assms(3) have "\<exists>i. i < length dio \<and> dio ! i = res"
    by (simp add: in_set_conv_nth)
  then obtain i where i: "i < length dio" "dio ! i = res" by blast
  from i(1) have ne: "dio \<noteq> []" by (cases dio) simp_all
  from i assms(4) have "Instances (dio ! (i mod length dio)) = []" by simp
  with assms(1,2) ne
  have p: "resolveBastionInstanceID c i r2 k v = Panics ''invalid argument to Intn''"
    by (rule resolve_selected_reservation_empty)
  show ?thesis by (rule exI [of _ i]) (rule p)
qed

text \<open>
  C1. With no fulfilled spot request and two reservations of running instances, the first
  of them holding no instance and the second holding \<open>i-ccc\<close>, a draw that selects the first
  reservation makes \<open>resolveBastionInstanceID\<close> panic in \<open>rand.Intn\<close>: it returns neither the id
  of an instance of a returned reservation nor a not-found error.
\<close>

theorem resolveBastionInstanceID_panics_at_empty_reservation:
  "resolveBastionInstanceID
     \<lparr>DescribeSpotInstanceRequests = (\<lambda>fs. Inr []),
      DescribeInstances = (\<lambda>inp. Inr
        [\<lparr>Instances = []\<rparr>,
         \<lparr>Instances = [\<lparr>InstanceId = Some ''i-ccc'', PrivateIpAddress = None,
                         PublicIpAddress = None, Placement_AvailabilityZone = None\<rparr>]\<rparr>])\<rparr>
     0 0 ''role'' ''bastion''
   = Panics ''invalid argument to Intn''"
  by (simp add: resolveBastionInstanceID_def getSpotRequestByTag_def getInstanceByTag_def
      rand_Intn_def Let_def)

text \<open>
  C10. \<open>resolveBastionInstanceID\<close> returns for every draw when every reservation of the
  running-instances response holds at least one instance. When the spot set is empty and
  the reservation the draw selects holds no instance, it panics in \<open>rand.Intn\<close> (argument 0)
  instead of returning the not-found error; and whenever the spot set is empty and some
  returned reservation is empty, there is a draw for which this happens.
\<close>

theorem resolveBastionInstanceID_total_only_for_filled_reservations:
  "((\<forall>dio. getInstanceByTag c k v = Inr dio \<longrightarrow> (\<forall>res \<in> set dio. Instances res \<noteq> []))
      \<longrightarrow> (\<exists>ret. resolveBastionInstanceID c r1 r2 k v = Returns ret))
   \<and> (getSpotRequestByTag c k v = Inr [] \<and> getInstanceByTag c k v = Inr dio
        \<and> dio \<noteq> [] \<and> Instances (dio ! (r1 mod length dio)) = []
      \<longrightarrow> resolveBastionInstanceID c r1 r2 k v = Panics ''invalid argument to Intn''
          \<and> resolveBastionInstanceID c r1 r2 k v
              \<noteq> Returns ([], Some (ErrorString ''unable to find any valid bastion instances'')))
   \<and> (getSpotRequestByTag c k v = Inr [] \<and> getInstanceByTag c k v = Inr dio
        \<and> (\<exists>res \<in> set dio. Instances res = [])
      \<longrightarrow> (\<exists>r. resolveBastionInstanceID c r r2 k v = Panics ''invalid argument to Intn''))"
proof (intro conjI impI)
  assume "\<forall>dio. getInstanceByTag c k v = Inr dio \<longrightarrow> (\<forall>res \<in> set dio. Instances res \<noteq> [])"
  then show "\<exists>ret. resolveBastionInstanceID c r1 r2 k v = Returns ret"
    by (rule resolve_returns_when_reservations_filled)
next
  assume a: "getSpotRequestByTag c k v = Inr [] \<and> getInstanceByTag c k v = Inr dio
        \<and> dio \<noteq> [] \<and> Instances (dio ! (r1 mod length dio)) = []"
  then have "getSpotRequestByTag c k v = Inr []" and "getInstanceByTag c k v = Inr dio"
    and "dio \<noteq> []" and "Instances (dio ! (r1 mod length dio)) = []"
    by blast+
  then show p: "resolveBastionInstanceID c r1 r2 k v = Panics ''invalid argument to Intn''"
    by (rule resolve_selected_reservation_empty)
  show "resolveBastionInstanceID c r1 r2 k v
          \<noteq> Returns ([], Some (ErrorString ''unable to find any valid bastion instances''))"
    by (simp add: p)
next
  assume "getSpotRequestByTag c k v = Inr [] \<and> getInstanceByTag c k v = Inr dio
        \<and> (\<exists>res \<in> set dio. Instances res = [])"
  then show "\<exists>r. resolveBastionInstanceID c r r2 k v = Panics ''invalid argument to Intn''"
    by (blast intro: resolve_some_draw_panics)
qed

theorem resolveBastionInstanceID_total_only_for_filled_reservations_witness:
  "(let c = \<lparr>DescribeSpotInstanceRequests = (\<lambda>fs. Inr []),
             DescribeInstances = (\<lambda>inp. Inr [\<lparr>Instances = []\<rparr>])\<rparr>
    in getSpotRequestByTag c ''role'' ''bastion'' = Inr []
       \<and> getInstanceByTag c ''role'' ''bastion'' = Inr [\<lparr>Instances = []\<rparr>]
       \<and> [\<lparr>Instances = []\<rparr>] \<noteq> []
       \<and> Instances ([\<lparr>Instances = []\<rparr>] ! (5 mod length [\<lparr>Instances = []\<rparr>])) = []
       \<and> resolveBastionInstanceID c 5 7 ''role'' ''bastion'' = Panics ''invalid argument to Intn'')
   \<and> (let c = \<lparr>DescribeSpotInstanceRequests = (\<lambda>fs. Inr []),
             DescribeInstances = (\<lambda>inp. Inr [\<lparr>Instances =
               [\<lparr>InstanceId = Some ''i-ccc'', PrivateIpAddress = None,
                 PublicIpAddress = None, Placement_AvailabilityZone = None\<rparr>]\<rparr>])\<rparr>
    in (\<exists>ret. resolveBastionInstanceID c 5 7 ''role'' ''bastion'' = Returns ret))"
proof -
  let ?c1 = "\<lparr>DescribeSpotInstanceRequests = (\<lambda>fs. Inr []),
             DescribeInstances = (\<lambda>inp. Inr [\<lparr>Instances = []\<rparr>])\<rparr>"
  let ?i = "\<lparr>InstanceId = Some ''i-ccc'', PrivateIpAddress = None,
                 PublicIpAddress = None, Placement_AvailabilityZone = None\<rparr>"
  let ?c2 = "\<lparr>DescribeSpotInstanceRequests = (\<lambda>fs. Inr []),
             DescribeInstances = (\<lambda>inp. Inr [\<lparr>Instances = [?i]\<rparr>])\<rparr>"
  have h1: "getSpotRequestByTag ?c1 ''role'' ''bastion'' = Inr []
       \<and> getInstanceByTag ?c1 ''role'' ''bastion'' = Inr [\<lparr>Instances = []\<rparr>]
       \<and> [\<lparr>Instances = []\<rparr>] \<noteq> []
       \<and> Instances ([\<lparr>Instances = []\<rparr>] ! (5 mod length [\<lparr>Instances = []\<rparr>])) = []"
    by (simp add: getSpotRequestByTag_def getInstanceByTag_def)
  have h2: "\<forall>dio. getInstanceByTag ?c2 ''role'' ''bastion'' = Inr dio
              \<longrightarrow> (\<forall>res \<in> set dio. Instances res \<noteq> [])"
    by (auto simp: getInstanceByTag_def)
  note t1 = resolveBastionInstanceID_total_only_for_filled_reservations
      [of ?c1 "''role''" "''bastion''" 5 7 "[\<lparr>Instances = []\<rparr>]"]
  note t2 = resolveBastionInstanceID_total_only_for_filled_reservations
      [of ?c2 "''role''" "''bastion''" 5 7 "[]"]
  have p: "resolveBastionInstanceID ?c1 5 7 ''role'' ''bastion'' = Panics ''invalid argument to Intn''"
    by (rule t1 [THEN conjunct2, THEN conjunct1, THEN mp, OF h1, THEN conjunct1])
  have q: "\<exists>ret. resolveBastionInstanceID ?c2 5 7 ''role'' ''bastion'' = Returns ret"
    by (rule t2 [THEN conjunct1, THEN mp, OF h2])
  from h1 p have "(getSpotRequestByTag ?c1 ''role'' ''bastion'' = Inr []
       \<and> getInstanceByTag ?c1 ''role'' ''bastion'' = Inr [\<lparr>Instances = []\<rparr>]
       \<and> [\<lparr>Instances = []\<rparr>] \<noteq> []
       \<and> Instances ([\<lparr>Instances = []\<rparr>] ! (5 mod length [\<lparr>Instances = []\<rparr>])) = [])
       \<and> resolveBastionInstanceID ?c1 5 7 ''role'' ''bastion'' = Panics ''invalid argument to Intn''"
    by (rule conjI)
  with q show ?thesis unfolding Let_def by (simp only: conj_assoc simp_thms)
qed

section \<open>Properties of EC2Endpoint\<close>

lemma Atoi_2222: "strconv_Atoi ''2222'' = (2222, None)"
  by (simp add: strconv_Atoi_def parse_digits_def is_digit_def digit_val_def)

text \<open>
  C8. Whatever keys are generated and whatever the instance lookup answers, \<open>NewEC2Endpoint\<close>
  parses \<open>ec2-user@i-0123:2222\<close> to user \<open>ec2-user\<close>, instance id \<open>i-0123\<close> and port 2222, and
  \<open>i-0123\<close> to the default user \<open>ec2-user\<close>, instance id \<open>i-0123\<close> and the default port 22.
\<close>

theorem NewEC2Endpoint_parses_endpoint_strings:
  "(let e = fst (NewEC2Endpoint keys ''ec2-user@i-0123:2222'' c)
    in User e = ''ec2-user'' \<and> InstanceID e = ''i-0123'' \<and> Port e = 2222)
   \<and> (let e = fst (NewEC2Endpoint keys ''i-0123'' c)
    in User e = ''ec2-user'' \<and> InstanceID e = ''i-0123'' \<and> Port e = 22)"
  by (simp add: NewEC2Endpoint_def Let_def Atoi_2222 split: option.split prod.split)

text \<open>
  C2. For an endpoint whose instance is known, when the send-public-key call fails: if the
  error is (or wraps) a throttling exception, \<open>sendPublicKey\<close> returns \<open>nil\<close> and \<open>String\<close>
  goes on to return an address; otherwise \<open>sendPublicKey\<close> returns the error wrapped as
  \<open>send public key error: ...\<close>, and \<open>String\<close> ends in \<open>log.Fatal\<close> of that error, the process
  exiting with status 1.
\<close>

theorem sendPublicKey_throttling_is_success:
  assumes "Instance e = Some inst"
    and "SendSSHPublicKey w
           \<lparr>sski_AvailabilityZone = Placement_AvailabilityZone inst,
            sski_InstanceId = InstanceId inst,
            sski_InstanceOSUser = Some (User e),
            sski_SSHPublicKey = Some (PublicKey e)\<rparr> = Inl err"
  shows "(errors_As_ThrottlingException err \<longrightarrow>
            snd (sendPublicKey w evs inst (User e) (PublicKey e)) = None
          \<and> (\<exists>addr. snd (EC2Endpoint_String w evs e) = Returns addr))
       \<and> (\<not> errors_As_ThrottlingException err \<longrightarrow>
            snd (sendPublicKey w evs inst (User e) (PublicKey e))
              = Some (WrapError (''send public key error: '' @ Error err) err)
          \<and> snd (EC2Endpoint_String w evs e) = Exits 1
          \<and> last (fst (EC2Endpoint_String w evs e))
              = Ev_log_Fatal (''send public key error: '' @ Error err))"
  using assms by (simp add: sendPublicKey_def EC2Endpoint_String_def Let_def)

theorem sendPublicKey_throttling_is_success_witness:
  "errors_As_ThrottlingException (WrapError ''operation error'' (ThrottlingException ''Rate exceeded''))
   \<and> snd (EC2Endpoint_String
       (example_world\<lparr>SendSSHPublicKey := (\<lambda>inp. Inl (WrapError ''operation error'' (ThrottlingException ''Rate exceeded'')))\<rparr>)
       [] example_endpoint) = Returns ''203.0.113.9:22''
   \<and> \<not> errors_As_ThrottlingException (ErrorString ''AccessDenied'')
   \<and> snd (EC2Endpoint_String
       (example_world\<lparr>SendSSHPublicKey := (\<lambda>inp. Inl (ErrorString ''AccessDenied''))\<rparr>)
       [] example_endpoint) = Exits 1"
  using sendPublicKey_throttling_is_success
    [where e = example_endpoint and inst = example_instance and evs = "[]"
       and w = "example_world\<lparr>SendSSHPublicKey := (\<lambda>inp. Inl (WrapError ''operation error'' (ThrottlingException ''Rate exceeded'')))\<rparr>"
       and err = "WrapError ''operation error'' (ThrottlingException ''Rate exceeded'')"]
    sendPublicKey_throttling_is_success
    [where e = example_endpoint and inst = example_instance and evs = "[]"
       and w = "example_world\<lparr>SendSSHPublicKey := (\<lambda>inp. Inl (ErrorString ''AccessDenied''))\<rparr>"
       and err = "ErrorString ''AccessDenied''"]
  by (simp add: example_endpoint_def example_instance_def example_world_def
      EC2Endpoint_String_def sendPublicKey_def Let_def fmt_d_def)

lemma sendPublicKey_events:
  "fst (sendPublicKey w evs inst u k) =
     evs @ [Ev_SendSSHPublicKey
              \<lparr>sski_AvailabilityZone = Placement_AvailabilityZone inst,
               sski_InstanceId = InstanceId inst,
               sski_InstanceOSUser = Some u,
               sski_SSHPublicKey = Some k\<rparr>]"
  by (simp add: sendPublicKey_def Let_def split: sum.split)

lemma sendPublicKey_result_independent:
  "snd (sendPublicKey w evs inst u k) = snd (sendPublicKey w evs' inst u k)"
  by (simp add: sendPublicKey_def Let_def split: sum.split)

text \<open>
  C7. For an endpoint whose instance is known, every call of \<open>String\<close> first sends the
  endpoint's public key (the next event after those so far is the send-public-key call
  for the endpoint's zone, instance, user and key); when the push counts as a success
  the result is the private address with the port if \<open>UsePrivate\<close> is set and the public
  address with the port otherwise; and a second call sends the key again.
\<close>

theorem String_pushes_key_then_selects_address:
  assumes "Instance e = Some inst"
  shows "take (Suc (length evs)) (fst (EC2Endpoint_String w evs e)) =
           evs @ [Ev_SendSSHPublicKey
                    \<lparr>sski_AvailabilityZone = Placement_AvailabilityZone inst,
                     sski_InstanceId = InstanceId inst,
                     sski_InstanceOSUser = Some (User e),
                     sski_SSHPublicKey = Some (PublicKey e)\<rparr>]
       \<and> (snd (sendPublicKey w evs inst (User e) (PublicKey e)) = None \<longrightarrow>
            (UsePrivate e \<longrightarrow>
               snd (EC2Endpoint_String w evs e)
                 = Returns (aws_ToString (PrivateIpAddress inst) @ '':'' @ fmt_d (Port e)))
          \<and> (\<not> UsePrivate e \<longrightarrow>
               snd (EC2Endpoint_String w evs e)
                 = Returns (aws_ToString (PublicIpAddress inst) @ '':'' @ fmt_d (Port e))))
       \<and> (\<forall>addr. snd (EC2Endpoint_String w evs e) = Returns addr \<longrightarrow>
            addr = aws_ToString (if UsePrivate e then PrivateIpAddress inst
                                 else PublicIpAddress inst) @ '':'' @ fmt_d (Port e)
          \<and> EC2Endpoint_String w (fst (EC2Endpoint_String w evs e)) e =
              (evs @ [Ev_SendSSHPublicKey
                        \<lparr>sski_AvailabilityZone = Placement_AvailabilityZone inst,
                         sski_InstanceId = InstanceId inst,
                         sski_InstanceOSUser = Some (User e),
                         sski_SSHPublicKey = Some (PublicKey e)\<rparr>,
                      Ev_SendSSHPublicKey
                        \<lparr>sski_AvailabilityZone = Placement_AvailabilityZone inst,
                         sski_InstanceId = InstanceId inst,
                         sski_InstanceOSUser = Some (User e),
                         sski_SSHPublicKey = Some (PublicKey e)\<rparr>],
               Returns addr))"
proof -
  let ?req = "\<lparr>sski_AvailabilityZone = Placement_AvailabilityZone inst,
                     sski_InstanceId = InstanceId inst,
                     sski_InstanceOSUser = Some (User e),
                     sski_SSHPublicKey = Some (PublicKey e)\<rparr>"
  obtain err where sp: "sendPublicKey w evs inst (User e) (PublicKey e) = (evs @ [Ev_SendSSHPublicKey ?req], err)"
    using sendPublicKey_events [of w evs inst "User e" "PublicKey e"]
    by (cases "sendPublicKey w evs inst (User e) (PublicKey e)") simp
  have sp2: "sendPublicKey w (evs @ [Ev_SendSSHPublicKey ?req]) inst (User e) (PublicKey e)
               = (evs @ [Ev_SendSSHPublicKey ?req, Ev_SendSSHPublicKey ?req], err)"
    using sendPublicKey_events [of w "evs @ [Ev_SendSSHPublicKey ?req]" inst "User e" "PublicKey e"]
      sendPublicKey_result_independent [of w "evs @ [Ev_SendSSHPublicKey ?req]" inst "User e" "PublicKey e" evs]
      sp
    by (cases "sendPublicKey w (evs @ [Ev_SendSSHPublicKey ?req]) inst (User e) (PublicKey e)") simp
  show ?thesis
    using assms sp sp2 by (cases err) (simp_all add: EC2Endpoint_String_def)
qed


theorem String_pushes_key_then_selects_address_witness:
  "Instance example_endpoint = Some example_instance
   \<and> Instance (example_endpoint\<lparr>UsePrivate := True\<rparr>) = Some example_instance
   \<and> snd (EC2Endpoint_String example_world [] example_endpoint) = Returns ''203.0.113.9:22''
   \<and> snd (EC2Endpoint_String example_world [] (example_endpoint\<lparr>UsePrivate := True\<rparr>))
        = Returns ''10.0.0.7:22''
   \<and> take (Suc (length [])) (fst (EC2Endpoint_String example_world [] example_endpoint)) =
        [] @ [Ev_SendSSHPublicKey
               \<lparr>sski_AvailabilityZone = Some ''eu-west-1a'', sski_InstanceId = Some ''i-0123'',
                sski_InstanceOSUser = Some ''ec2-user'', sski_SSHPublicKey = Some ''PUBLIC''\<rparr>]"
  using String_pushes_key_then_selects_address
      [where e = example_endpoint and inst = example_instance and w = example_world and evs = "[]"]
    String_pushes_key_then_selects_address
      [where e = "example_endpoint\<lparr>UsePrivate := True\<rparr>" and inst = example_instance
         and w = example_world and evs = "[]"]
  by (simp add: example_endpoint_def example_instance_def example_world_def
      EC2Endpoint_String_def sendPublicKey_def Let_def fmt_d_def)

section \<open>Properties of the interactive session and of the exit status\<close>

lemma Connect_session_restores_on_return:
  assumes "IsTerminal w" and "NewSession w client = Inr sess" and "MakeRaw w = Inr st"
    and "Connect_session w evs client = (evs', Returns r)"
  shows "Ev_Restore st \<in> set evs'"
  using assms
  by (auto simp: Connect_session_def Connect_shell_def Let_def
      split: sum.splits option.splits prod.splits)

lemma Connect_session_without_terminal:
  assumes "\<not> IsTerminal w" and "NewSession w client = Inr sess"
  shows "fst (Connect_session w evs client) = evs @ [Ev_NewSession client, Ev_Shell sess, Ev_Wait sess, Ev_Session_Close sess]
       \<or> fst (Connect_session w evs client) = evs @ [Ev_NewSession client, Ev_Shell sess, Ev_slog_Error ''failed to start shell'', Ev_os_Exit 1]"
  using assms
  by (simp add: Connect_session_def Connect_shell_def Let_def split: option.splits)

lemma Connect_session_pty_before_shell:
  assumes "IsTerminal w" and "NewSession w client = Inr sess" and "MakeRaw w = Inr st"
    and "GetSize w = Inr (width, height)"
    and "RequestPty w sess ''xterm-256color'' height width = None"
  shows "take (length evs + 5) (fst (Connect_session w evs client)) =
           evs @ [Ev_NewSession client, Ev_MakeRaw, Ev_GetSize,
                  Ev_RequestPty sess ''xterm-256color'' height width modes, Ev_Shell sess]"
  using assms
  by (simp add: Connect_session_def Connect_shell_def Let_def split: option.splits)

lemma Atoi_22: "strconv_Atoi ''22'' = (22, None)"
  by (simp add: strconv_Atoi_def parse_digits_def is_digit_def digit_val_def)

lemma example_bastion:
  "NewEC2Endpoint (''PRIVATE'', ''PUBLIC'', None) ''ec2-user@i-0123:22''
      \<lparr>DescribeSpotInstanceRequests = (\<lambda>fs. Inr []),
             DescribeInstances = (\<lambda>inp. Inr [\<lparr>Instances = [example_instance]\<rparr>])\<rparr>
    = (example_endpoint, None)"
  by (simp add: NewEC2Endpoint_def Let_def Atoi_22 getEC2Instance_def example_endpoint_def)

text \<open>
  C5. With the instance id given on the command line and a bastion whose private key
  does not parse, \<open>GetSSHConfig\<close> fails, \<open>Connect\<close> returns \<open>nil\<close> from inside its loop, \<open>run\<close>
  returns \<open>nil\<close> and the process ends with status 0, although nothing was dialled and no
  session was opened (no event at all).
\<close>

theorem main_exits_zero_when_auth_config_fails:
  "main example_NewEndpoint example_Endpoint_iface
     (example_world\<lparr>ParsePrivateKey := (\<lambda>pem. Inl (ErrorString ''ssh: no key found''))\<rparr>)
     example_flags
   = ([], Some 0)"
  by (simp add: main_def run_def Let_def example_flags_def example_world_def fmt_d_def
      example_bastion example_NewEndpoint_def Connect_def EC2Endpoint_iface_def
      EC2Endpoint_GetSSHConfig_def example_endpoint_def)

text \<open>
  C9. With a terminal on standard input and a session whose shell does not start,
  \<open>Connect\<close> switches the terminal to raw mode, requests the pseudo-terminal of 24 rows and
  80 columns, and ends the process in \<open>os.Exit(1)\<close>: the deferred \<open>term.Restore\<close> never runs.
\<close>

theorem Connect_session_shell_failure_leaves_raw_mode:
  "Connect_session (example_world\<lparr>Shell := (\<lambda>sess. Some (ErrorString ''ssh: could not start shell''))\<rparr>) [] 1
     = ([Ev_NewSession 1, Ev_MakeRaw, Ev_GetSize,
         Ev_RequestPty 7 ''xterm-256color'' 24 80 modes,
         Ev_Shell 7, Ev_slog_Error ''failed to start shell'', Ev_os_Exit 1], Exits 1)
   \<and> Ev_Restore 3 \<notin> set (fst (Connect_session
         (example_world\<lparr>Shell := (\<lambda>sess. Some (ErrorString ''ssh: could not start shell''))\<rparr>) [] 1))"
  by (simp add: Connect_session_def Connect_shell_def example_world_def Let_def)

end
